theory Spec2Isabelle
  imports Main
begin

section \<open>Call statuses\<close>

text \<open>
  \<^verbatim>\<open>type CallStatus struct { Name string; Retryable bool }\<close> and its constructor
  \<^verbatim>\<open>callStatus(name, retryable)\<close>.
\<close>

record CallStatus =
  Name :: string
  Retryable :: bool

definition callStatus :: "string \<Rightarrow> bool \<Rightarrow> CallStatus" where
  "callStatus name retryable = \<lparr>Name = name, Retryable = retryable\<rparr>"

definition StatusCompleted :: CallStatus where
  "StatusCompleted = callStatus ''completed'' False"

definition StatusStarted :: CallStatus where
  "StatusStarted = callStatus ''started'' True"

definition StatusBadRequest :: CallStatus where
  "StatusBadRequest = callStatus ''bad_request'' False"

definition StatusStateConflict :: CallStatus where
  "StatusStateConflict = callStatus ''state_conflict'' False"

definition StatusFailedValidation :: CallStatus where
  "StatusFailedValidation = callStatus ''failed_validation'' False"

definition StatusNotFound :: CallStatus where
  "StatusNotFound = callStatus ''not_found'' False"

definition StatusUnauthenticated :: CallStatus where
  "StatusUnauthenticated = callStatus ''unauthenticated'' False"

definition StatusUnauthorized :: CallStatus where
  "StatusUnauthorized = callStatus ''unauthorized'' False"

definition StatusRateLimited :: CallStatus where
  "StatusRateLimited = callStatus ''rate_limited'' True"

definition StatusServerError :: CallStatus where
  "StatusServerError = callStatus ''server_error'' True"

text \<open>The ten statuses of the \<^verbatim>\<open>var ( ... )\<close> block, in declaration order.\<close>

definition defined_statuses :: "CallStatus list" where
  "defined_statuses =
     [StatusCompleted, StatusStarted, StatusBadRequest, StatusStateConflict,
      StatusFailedValidation, StatusNotFound, StatusUnauthenticated, StatusUnauthorized,
      StatusRateLimited, StatusServerError]"

lemmas status_defs =
  callStatus_def StatusCompleted_def StatusStarted_def StatusBadRequest_def
  StatusStateConflict_def StatusFailedValidation_def StatusNotFound_def
  StatusUnauthenticated_def StatusUnauthorized_def StatusRateLimited_def
  StatusServerError_def

section \<open>Errors\<close>

text \<open>
  Go's \<^verbatim>\<open>error\<close> values; a nil \<^verbatim>\<open>error\<close> is \<open>None\<close>. \<^verbatim>\<open>ErrDuplicateBankAccount\<close> and
  \<^verbatim>\<open>ErrNoMicroDeposit\<close> are declared with \<^verbatim>\<open>errors.New\<close> in bank_account.go. Every error
  that is not one of the named ones (transport failures, JSON failures, the error a
  response converts itself into) is \<open>OtherError\<close> with its message.
\<close>

text \<open>
  Modelled from the spec: the named errors \<^verbatim>\<open>ErrAmountIncorrect\<close>, \<^verbatim>\<open>ErrXIdempotencyKey\<close>,
  \<^verbatim>\<open>ErrRequestBody\<close>, \<^verbatim>\<open>ErrRateLimit\<close> and the generic failure \<^verbatim>\<open>ErrDefault(statusCode)\<close>
  are declared in a file of the package that is not available. The spec calls them
  distinct named errors, so each is a constructor of its own.
\<close>

datatype error =
    ErrDuplicateBankAccount
  | ErrNoMicroDeposit
  | ErrAmountIncorrect
  | ErrXIdempotencyKey
  | ErrRequestBody
  | ErrRateLimit
  | ErrDefault int
  | OtherError string


section \<open>Call construction\<close>

text \<open>
  \<^verbatim>\<open>callBuilder\<close>: the request in progress. The two Go maps are maps from strings to
  strings, the optional token is a \<^verbatim>\<open>*string\<close> and the body an \<^verbatim>\<open>io.Reader\<close> (nil when
  no body was set; otherwise the bytes it will yield).
\<close>

record callBuilder =
  "method" :: string
  path :: string
  params :: "string \<rightharpoonup> string"
  headers :: "string \<rightharpoonup> string"
  token :: "string option"
  body :: "string option"

text \<open>
  A \<^verbatim>\<open>callArg\<close> wraps a \<^verbatim>\<open>func(call *callBuilder) error\<close>: it may mutate the builder it is
  given and returns an error or nil. In the model it returns the builder as it left it,
  together with the error.
\<close>

type_synonym callArg = "callBuilder \<Rightarrow> callBuilder \<times> error option"

text \<open>
  \<^verbatim>\<open>call := &callBuilder{params: make(map[string]string), headers: make(map[string]string)}\<close>:
  every other field has its zero value.
\<close>

definition emptyCall :: callBuilder where
  "emptyCall = \<lparr>method = [], path = [], params = Map.empty, headers = Map.empty,
                 token = None, body = None\<rparr>"

text \<open>
  \<^verbatim>\<open>prependArgs(opts, args...)\<close>: the loop appends every element of \<open>opts\<close>, in order, to
  \<open>args\<close>.
\<close>

fun prependArgs :: "'a list \<Rightarrow> 'a list \<Rightarrow> 'a list" where
  "prependArgs [] args = args"
| "prependArgs (opt # opts) args = prependArgs opts (args @ [opt])"

text \<open>
  The loop of \<^verbatim>\<open>newCall\<close>: apply each option to the builder; the first error returns
  \<^verbatim>\<open>nil, err\<close> at once.
\<close>

fun applyArgs :: "callArg list \<Rightarrow> callBuilder \<Rightarrow> error + callBuilder" where
  "applyArgs [] call = Inr call"
| "applyArgs (arg # args) call =
     (case arg call of
        (call', Some err) \<Rightarrow> Inl err
      | (call', None) \<Rightarrow> applyArgs args call')"

definition newCall :: "callArg \<Rightarrow> callArg list \<Rightarrow> error + callBuilder" where
  "newCall endpoint args = applyArgs (prependArgs args [endpoint]) emptyCall"

subsection \<open>Request options\<close>

text \<open>
  \<^verbatim>\<open>fmt.Sprintf\<close> for the path templates of this package: every argument is a string and
  the only verb is \<^verbatim>\<open>%s\<close>. A \<^verbatim>\<open>%s\<close> without an argument left prints \<^verbatim>\<open>%!s(MISSING)\<close>, and
  arguments left over at the end are reported as \<^verbatim>\<open>%!(EXTRA string=a, string=b)\<close>, as Go
  does. Any other character is copied.
\<close>

fun extraArgs :: "string list \<Rightarrow> string" where
  "extraArgs [] = []"
| "extraArgs [a] = ''string='' @ a"
| "extraArgs (a # b # as) = ''string='' @ a @ '', '' @ extraArgs (b # as)"

fun Sprintf :: "string \<Rightarrow> string list \<Rightarrow> string" where
  "Sprintf [] [] = []"
| "Sprintf [] (a # as) = ''%!(EXTRA '' @ extraArgs (a # as) @ '')''"
| "Sprintf (c # d # cs) as =
     (if c = CHR ''%'' \<and> d = CHR ''s'' then
        (case as of
           [] \<Rightarrow> ''%!s(MISSING)'' @ Sprintf cs []
         | a # as' \<Rightarrow> a @ Sprintf cs as')
      else c # Sprintf (d # cs) as)"
| "Sprintf [c] as = c # Sprintf [] as"

text \<open>\<^verbatim>\<open>Endpoint(method, pathFmt, args...)\<close> sets the method and the formatted path.\<close>

definition Endpoint :: "string \<Rightarrow> string \<Rightarrow> string list \<Rightarrow> callArg" where
  "Endpoint m pathFmt args =
     (\<lambda>call. (call\<lparr>method := m, path := Sprintf pathFmt args\<rparr>, None))"

text \<open>
  \<^verbatim>\<open>JsonBody(body)\<close>. \<^verbatim>\<open>json.Marshal\<close> belongs to the standard library: it is the
  parameter \<open>marshal\<close>, which returns the bytes or the error. On an error the builder is
  left untouched.
\<close>

definition JsonBody :: "('b \<Rightarrow> error + string) \<Rightarrow> 'b \<Rightarrow> callArg" where
  "JsonBody marshal b =
     (\<lambda>call. case marshal b of
        Inl err \<Rightarrow> (call, Some err)
      | Inr payload \<Rightarrow>
          (call\<lparr>headers := (headers call)(''Context-Type'' \<mapsto> ''application/json''),
                 body := Some payload\<rparr>, None))"

definition AcceptJson :: callArg where
  "AcceptJson =
     (\<lambda>call. (call\<lparr>headers := (headers call)(''Accept'' \<mapsto> ''application/json'')\<rparr>, None))"

definition WaitFor :: "string \<Rightarrow> callArg" where
  "WaitFor state =
     (\<lambda>call. (call\<lparr>headers := (headers call)(''X-Wait-For'' \<mapsto> state)\<rparr>, None))"

text \<open>
  The four constructors above are the only options of the call builder. As data, with
  \<open>toCallArg\<close> giving the option each one stands for, they describe every list of options
  that can be written with them.
\<close>

datatype 'b requestOption =
    EndpointOpt string string "string list"
  | JsonBodyOpt 'b
  | AcceptJsonOpt
  | WaitForOpt string

fun toCallArg :: "('b \<Rightarrow> error + string) \<Rightarrow> 'b requestOption \<Rightarrow> callArg" where
  "toCallArg marshal (EndpointOpt m pathFmt args) = Endpoint m pathFmt args"
| "toCallArg marshal (JsonBodyOpt b) = JsonBody marshal b"
| "toCallArg marshal AcceptJsonOpt = AcceptJson"
| "toCallArg marshal (WaitForOpt state) = WaitFor state"

section \<open>Responses\<close>

text \<open>
  \<^verbatim>\<open>CallResponse\<close> is an interface with three methods. A response is the record of what
  they answer: \<open>Status\<close> is \<^verbatim>\<open>resp.Status()\<close>, \<open>Error\<close> is \<^verbatim>\<open>resp.Error()\<close> (nil is
  \<open>None\<close>), and \<open>Body\<close> is the content \<^verbatim>\<open>resp.Unmarshal\<close> reads. \<^verbatim>\<open>Unmarshal(item any)\<close>
  works at every target type, so the decoder for a given target type is a parameter
  \<open>dec\<close> of the functions below: applied to the body it returns the error, or the value
  the target holds afterwards.

  A pointer result \<^verbatim>\<open>*A\<close> is an \<open>'a option\<close>, a slice \<^verbatim>\<open>[]A\<close> is an \<open>'a list option\<close>
  (\<open>None\<close> is the nil slice).
\<close>

record CallResponse =
  Status :: CallStatus
  Body :: string
  Error :: "error option"

definition UnmarshalObjectResponse ::
  "(string \<Rightarrow> error + 'a) \<Rightarrow> CallResponse \<Rightarrow> 'a option \<times> error option" where
  "UnmarshalObjectResponse dec resp =
     (case dec (Body resp) of
        Inl err \<Rightarrow> (None, Some err)
      | Inr item \<Rightarrow> (Some item, None))"

definition UnmarshalListResponse ::
  "(string \<Rightarrow> error + 'a list option) \<Rightarrow> CallResponse \<Rightarrow> 'a list option \<times> error option" where
  "UnmarshalListResponse dec resp =
     (case dec (Body resp) of
        Inl err \<Rightarrow> (None, Some err)
      | Inr item \<Rightarrow> (item, None))"

definition CompletedNilOrError :: "CallResponse \<Rightarrow> error option" where
  "CompletedNilOrError resp =
     (if Status resp = StatusCompleted then None else Error resp)"

definition CompletedObjectOrError ::
  "(string \<Rightarrow> error + 'a) \<Rightarrow> CallResponse \<Rightarrow> 'a option \<times> error option" where
  "CompletedObjectOrError dec resp =
     (if Status resp = StatusCompleted then UnmarshalObjectResponse dec resp
      else (None, Error resp))"

definition CompletedListOrError ::
  "(string \<Rightarrow> error + 'a list option) \<Rightarrow> CallResponse \<Rightarrow> 'a list option \<times> error option" where
  "CompletedListOrError dec resp =
     (if Status resp = StatusCompleted then UnmarshalListResponse dec resp
      else (None, Error resp))"

section \<open>Sending a call\<close>

text \<open>
  The constants \<^verbatim>\<open>baseURL\<close>, \<^verbatim>\<open>pathTransfers\<close>, \<^verbatim>\<open>pathBankAccounts\<close> and
  \<^verbatim>\<open>pathMicroDeposits\<close> are declared in a file of the package that is not available.
  The endpoint functions take them as a record.
\<close>

record Paths =
  baseURL :: string
  pathTransfers :: string
  pathBankAccounts :: string
  pathMicroDeposits :: string

definition MethodGet :: string where "MethodGet = ''GET''"
definition MethodPost :: string where "MethodPost = ''POST''"
definition MethodPut :: string where "MethodPut = ''PUT''"
definition MethodDelete :: string where "MethodDelete = ''DELETE''"

text \<open>
  \<^verbatim>\<open>Client.CallHttp(ctx, endpoint, args...)\<close> is defined in a file of the package that is
  not available. The endpoint functions take it as the parameter \<open>callHttp\<close>: given the
  endpoint option and the other options it returns an error or a response. The context
  only carries cancellation and is left out.
\<close>

type_synonym caller = "callArg \<Rightarrow> callArg list \<Rightarrow> error + CallResponse"

text \<open>
  Modelled from the spec: \<open>CallHttp\<close> is \<^verbatim>\<open>Client.CallHttp\<close> as the spec (4.1, 4.5)
  describes it, for use where a concrete client is needed. It builds the request from
  the options with \<^verbatim>\<open>newCall\<close>, returns a construction error without sending anything,
  and otherwise issues the request through the transport \<open>send\<close>: a transport error is
  returned as it is, any other outcome is a classified response.
\<close>

definition CallHttp :: "(callBuilder \<Rightarrow> error + CallResponse) \<Rightarrow> caller" where
  "CallHttp send endpoint args =
     (case newCall endpoint args of
        Inl err \<Rightarrow> Inl err
      | Inr call \<Rightarrow> send call)"

section \<open>Bank accounts\<close>

text \<open>
  The \<^verbatim>\<open>BankAccount\<close> struct is only marshalled and unmarshalled here, by the JSON
  functions that are parameters (\<open>marshal\<close>, \<open>dec\<close>); it is the type variable \<open>'b\<close>.
\<close>

definition CreateBankAccount ::
  "Paths \<Rightarrow> caller \<Rightarrow> ('b \<Rightarrow> error + string) \<Rightarrow>
   (string \<Rightarrow> error + 'b) \<Rightarrow> string \<Rightarrow> 'b \<Rightarrow> 'b option \<times> error option" where
  "CreateBankAccount k callHttp marshal dec accountID bankAccount =
     (case callHttp (Endpoint MethodPost (pathBankAccounts k) [accountID])
             [AcceptJson, JsonBody marshal bankAccount] of
        Inl err \<Rightarrow> (None, Some err)
      | Inr resp \<Rightarrow>
          if Status resp = StatusCompleted then CompletedObjectOrError dec resp
          else if Status resp = StatusStateConflict then (None, Some ErrDuplicateBankAccount)
          else (None, Error resp))"

definition GetBankAccount ::
  "Paths \<Rightarrow> caller \<Rightarrow> (string \<Rightarrow> error + 'b) \<Rightarrow>
   string \<Rightarrow> string \<Rightarrow> 'b option \<times> error option" where
  "GetBankAccount k callHttp dec accountID bankAccountID =
     (case callHttp (Endpoint MethodGet (pathBankAccounts k) [accountID]) [AcceptJson] of
        Inl err \<Rightarrow> (None, Some err)
      | Inr resp \<Rightarrow> CompletedObjectOrError dec resp)"

definition DeleteBankAccount ::
  "Paths \<Rightarrow> caller \<Rightarrow> string \<Rightarrow> string \<Rightarrow> error option" where
  "DeleteBankAccount k callHttp accountID bankAccountID =
     (case callHttp (Endpoint MethodDelete (pathBankAccounts k) [accountID]) [] of
        Inl err \<Rightarrow> Some err
      | Inr resp \<Rightarrow> CompletedNilOrError resp)"

definition ListBankAccounts ::
  "Paths \<Rightarrow> caller \<Rightarrow> (string \<Rightarrow> error + 'b list option) \<Rightarrow>
   string \<Rightarrow> 'b list option \<times> error option" where
  "ListBankAccounts k callHttp dec accountID =
     (case callHttp (Endpoint MethodGet (pathBankAccounts k) [accountID]) [AcceptJson] of
        Inl err \<Rightarrow> (None, Some err)
      | Inr resp \<Rightarrow> CompletedListOrError dec resp)"

definition MicroDepositInitiate ::
  "Paths \<Rightarrow> caller \<Rightarrow> string \<Rightarrow> string \<Rightarrow> error option" where
  "MicroDepositInitiate k callHttp accountID bankAccountID =
     (case callHttp
             (Endpoint MethodPost (pathMicroDeposits k) [accountID, bankAccountID]) [] of
        Inl err \<Rightarrow> Some err
      | Inr resp \<Rightarrow> CompletedNilOrError resp)"

text \<open>
  The body of \<^verbatim>\<open>MicroDepositConfirm\<close> is the Go map \<^verbatim>\<open>{"amounts": amounts}\<close>, here the
  one-entry association list handed to \<open>marshal\<close>.
\<close>

definition MicroDepositConfirm ::
  "Paths \<Rightarrow> caller \<Rightarrow>
   ((string \<times> int list) list \<Rightarrow> error + string) \<Rightarrow>
   string \<Rightarrow> string \<Rightarrow> int list \<Rightarrow> error option" where
  "MicroDepositConfirm k callHttp marshal accountID bankAccountID amounts =
     (case callHttp
             (Endpoint MethodPut (pathMicroDeposits k) [accountID, bankAccountID])
             [AcceptJson, JsonBody marshal [(''amounts'', amounts)]] of
        Inl err \<Rightarrow> Some err
      | Inr resp \<Rightarrow>
          if Status resp = StatusCompleted then None
          else if Status resp = StatusNotFound then Some ErrNoMicroDeposit
          else if Status resp = StatusStateConflict then Some ErrAmountIncorrect
          else Error resp)"

section \<open>Transfers\<close>

text \<open>
  \<^verbatim>\<open>time.Time\<close>: an instant, as the seconds since January 1 of year 1, 00:00:00 UTC and
  the nanoseconds within the second. \<^verbatim>\<open>IsZero\<close> is Go's: both are zero.
\<close>

record Time =
  sec :: int
  nsec :: nat

definition IsZero :: "Time \<Rightarrow> bool" where
  "IsZero t = (sec t = 0 \<and> nsec t = 0)"

record AsynchronousTransfer =
  TransferID :: string
  CreatedOn :: Time

text \<open>
  \<^verbatim>\<open>SearchQueryPayload\<close>. Its \<^verbatim>\<open>Status\<close> field is \<open>Status_q\<close> here, the name \<open>Status\<close>
  being the method of a response. \<^verbatim>\<open>Count\<close> and \<^verbatim>\<open>Skip\<close> are Go \<^verbatim>\<open>int\<close>s, which are only
  compared with zero and printed.
\<close>

record SearchQueryPayload =
  AccountIDs :: "string list"
  Status_q :: string
  StartDateTime :: Time
  EndDateTime :: Time
  GroupID :: string
  Count :: int
  Skip :: int
  Refunded :: bool
  Disputed :: bool

record RefundPayload =
  Amount :: int

definition http_StatusOK :: int where "http_StatusOK = 200"
definition http_StatusAccepted :: int where "http_StatusAccepted = 202"
definition http_StatusBadRequest :: int where "http_StatusBadRequest = 400"
definition http_StatusConflict :: int where "http_StatusConflict = 409"
definition http_StatusUnprocessableEntity :: int where "http_StatusUnprocessableEntity = 422"
definition http_StatusTooManyRequests :: int where "http_StatusTooManyRequests = 429"

lemmas http_status_defs =
  http_StatusOK_def http_StatusAccepted_def http_StatusBadRequest_def
  http_StatusConflict_def http_StatusUnprocessableEntity_def http_StatusTooManyRequests_def

text \<open>
  \<^verbatim>\<open>CreateTransfer\<close>. \<open>decS\<close> and \<open>decA\<close> are \<^verbatim>\<open>resp.Unmarshal\<close> at the two target types
  \<^verbatim>\<open>SynchronousTransfer\<close> (the type variable \<open>'s\<close>) and \<^verbatim>\<open>AsynchronousTransfer\<close>.
\<close>

definition CreateTransfer ::
  "Paths \<Rightarrow> caller \<Rightarrow> ('t \<Rightarrow> error + string) \<Rightarrow>
   (string \<Rightarrow> error + 's) \<Rightarrow> (string \<Rightarrow> error + AsynchronousTransfer) \<Rightarrow>
   't \<Rightarrow> bool \<Rightarrow> 's option \<times> AsynchronousTransfer option \<times> error option" where
  "CreateTransfer k callHttp marshal decS decA transfer isSync =
     (let args = [AcceptJson, JsonBody marshal transfer];
          args = (if isSync then args @ [WaitFor ''rail-response''] else args)
      in case callHttp (Endpoint MethodPost (pathTransfers k) []) args of
           Inl err \<Rightarrow> (None, None, Some err)
         | Inr resp \<Rightarrow>
             if Status resp = StatusCompleted then
               (case UnmarshalObjectResponse decS resp of (st, err) \<Rightarrow> (st, None, err))
             else if Status resp = StatusStarted then
               (case UnmarshalObjectResponse decA resp of (st, err) \<Rightarrow> (None, st, err))
             else if Status resp = StatusStateConflict then (None, None, Some ErrXIdempotencyKey)
             else (None, None, Error resp))"

subsection \<open>The query of ListTransfers\<close>

text \<open>
  \<^verbatim>\<open>url.Values\<close> is a \<^verbatim>\<open>map[string][]string\<close>; \<^verbatim>\<open>Add\<close> appends the value to the list of
  the key.
\<close>

type_synonym Values = "string \<rightharpoonup> string list"

definition Values_Add :: "Values \<Rightarrow> string \<Rightarrow> string \<Rightarrow> Values" where
  "Values_Add v key val = v(key \<mapsto> (case v key of None \<Rightarrow> [] | Some vs \<Rightarrow> vs) @ [val])"

text \<open>\<^verbatim>\<open>strings.Join(elems, sep)\<close>.\<close>

fun Join :: "string list \<Rightarrow> string \<Rightarrow> string" where
  "Join [] sep = []"
| "Join [a] sep = a"
| "Join (a # b # as) sep = a @ sep @ Join (b # as) sep"

text \<open>\<^verbatim>\<open>fmt.Sprint\<close> of an \<^verbatim>\<open>int\<close>: its decimal digits, after a minus sign if negative.\<close>

definition digitChar :: "nat \<Rightarrow> char" where
  "digitChar d = ''0123456789'' ! d"

fun natDec :: "nat \<Rightarrow> string" where
  "natDec n = (if n < 10 then [digitChar n] else natDec (n div 10) @ [digitChar (n mod 10)])"

declare natDec.simps [simp del]

definition Sprint :: "int \<Rightarrow> string" where
  "Sprint i = (if i < 0 then CHR ''-'' # natDec (nat (- i)) else natDec (nat i))"

text \<open>
  The \<^verbatim>\<open>values\<close> that \<^verbatim>\<open>ListTransfers\<close> builds, the \<^verbatim>\<open>if\<close> statements in the order of the
  source. \<open>rfc3339\<close> is \<^verbatim>\<open>Time.Format(time.RFC3339)\<close> of the standard library.
\<close>

definition ListTransfers_values :: "(Time \<Rightarrow> string) \<Rightarrow> SearchQueryPayload \<Rightarrow> Values" where
  "ListTransfers_values rfc3339 payload =
     (let values = Map.empty;
          startDateTimeStr = rfc3339 (StartDateTime payload);
          endDateTimeStr = rfc3339 (EndDateTime payload);
          values = (if length (AccountIDs payload) > 0
                    then Values_Add values ''accountIDs'' (Join (AccountIDs payload) '','')
                    else values);
          values = (if Status_q payload \<noteq> []
                    then Values_Add values ''status'' (Status_q payload) else values);
          values = (if \<not> IsZero (StartDateTime payload)
                    then Values_Add values ''startDateTime'' startDateTimeStr else values);
          values = (if \<not> IsZero (EndDateTime payload)
                    then Values_Add values ''endDateTime'' endDateTimeStr else values);
          values = (if GroupID payload \<noteq> []
                    then Values_Add values ''groupID'' (GroupID payload) else values);
          values = (if Count payload > 0
                    then Values_Add values ''count'' (Sprint (Count payload)) else values);
          values = (if Skip payload > 0
                    then Values_Add values ''skip'' (Sprint (Skip payload)) else values);
          values = (if Refunded payload
                    then Values_Add values ''refunded'' ''true'' else values);
          values = (if Disputed payload
                    then Values_Add values ''disputed'' ''true'' else values)
      in values)"

text \<open>
  \<^verbatim>\<open>Client.GetHTTPResponse(method, url, payload, header)\<close> is defined in a file of
  the package that is not available; it is the parameter \<open>http\<close>, returning the body, the status
  code and the error. \<open>encode\<close> is \<^verbatim>\<open>url.Values.Encode\<close> and \<open>unm\<close> is \<^verbatim>\<open>json.Unmarshal\<close>
  into the result variable: given the body and the value the variable holds, it returns
  the value it holds afterwards and the error. Both branches of the \<^verbatim>\<open>http.StatusOK\<close>
  case return the variable and that error.
\<close>

definition ListTransfers ::
  "Paths \<Rightarrow>
   (string \<Rightarrow> string \<Rightarrow> 'p option \<Rightarrow> (string \<rightharpoonup> string) option \<Rightarrow> string \<times> int \<times> error option) \<Rightarrow>
   (Values \<Rightarrow> string) \<Rightarrow> (Time \<Rightarrow> string) \<Rightarrow>
   (string \<Rightarrow> 's list option \<Rightarrow> 's list option \<times> error option) \<Rightarrow>
   SearchQueryPayload \<Rightarrow> 's list option \<times> error option" where
  "ListTransfers k http encode rfc3339 unm payload =
     (let respTransfers = None;
          urlStr = Sprintf ''%s/%s?%s''
                     [baseURL k, pathTransfers k, encode (ListTransfers_values rfc3339 payload)]
      in case http MethodGet urlStr None None of
           (b, statusCode, Some err) \<Rightarrow> (respTransfers, Some err)
         | (b, statusCode, None) \<Rightarrow>
             if statusCode = http_StatusOK then unm b respTransfers
             else if statusCode = http_StatusTooManyRequests then (respTransfers, Some ErrRateLimit)
             else (respTransfers, Some (ErrDefault statusCode)))"

subsection \<open>Refunds and reversals\<close>

text \<open>
  In the \<^verbatim>\<open>http.StatusBadRequest\<close> case a fresh \<^verbatim>\<open>var err error\<close>, which is nil, is the
  target of \<^verbatim>\<open>json.Unmarshal(body, &err)\<close>, and what \<^verbatim>\<open>Unmarshal\<close> returns is assigned to
  the blank identifier. \<^verbatim>\<open>encoding/json\<close> stores into an interface target only if the
  interface has no methods or already holds a pointer; \<^verbatim>\<open>error\<close> has a method and the
  target holds nothing, so for every body the target is left as it was. This is the value
  of \<^verbatim>\<open>err\<close> after the call.
\<close>

definition unmarshalIntoNilError :: "string \<Rightarrow> error option" where
  "unmarshalIntoNilError b = None"

text \<open>
  \<^verbatim>\<open>RefundTransfer\<close>. \<open>zero\<close> is the zero value of \<^verbatim>\<open>Refund\<close> (the type variable \<open>'r\<close>),
  \<open>uuidV4\<close> what \<^verbatim>\<open>uuid.NewString()\<close> returned.
\<close>

definition RefundTransfer ::
  "Paths \<Rightarrow>
   (string \<Rightarrow> string \<Rightarrow> RefundPayload option \<Rightarrow> (string \<rightharpoonup> string) option \<Rightarrow>
      string \<times> int \<times> error option) \<Rightarrow>
   (string \<Rightarrow> 'r \<Rightarrow> 'r \<times> error option) \<Rightarrow> 'r \<Rightarrow> string \<Rightarrow>
   string \<Rightarrow> bool \<Rightarrow> int \<Rightarrow> 'r \<times> error option" where
  "RefundTransfer k http unm zero uuidV4 transferID isSync amount =
     (let respRefund = zero;
          urlStr = Sprintf ''%s/%s/%s/refunds'' [baseURL k, pathTransfers k, transferID];
          header = [''X-Idempotency-Key'' \<mapsto> uuidV4];
          header = (if isSync then header(''X-Wait-For'' \<mapsto> ''rail-response'') else header);
          refundPayload = \<lparr>Amount = amount\<rparr>
      in case http MethodPost urlStr (Some refundPayload) (Some header) of
           (b, statusCode, Some err) \<Rightarrow> (respRefund, Some err)
         | (b, statusCode, None) \<Rightarrow>
             if statusCode = http_StatusOK \<or> statusCode = http_StatusAccepted
               then unm b respRefund
             else if statusCode = http_StatusBadRequest
               then (respRefund, unmarshalIntoNilError b)
             else if statusCode = http_StatusConflict
               then (respRefund, Some ErrXIdempotencyKey)
             else if statusCode = http_StatusUnprocessableEntity
               then (respRefund, Some ErrRequestBody)
             else if statusCode = http_StatusTooManyRequests
               then (respRefund, Some ErrRateLimit)
             else (respRefund, Some (ErrDefault statusCode)))"

text \<open>\<^verbatim>\<open>ReverseTransfer\<close>; \<open>zero\<close> is \<^verbatim>\<open>CanceledTransfer{}\<close>.\<close>

definition ReverseTransfer ::
  "Paths \<Rightarrow>
   (string \<Rightarrow> string \<Rightarrow> RefundPayload option \<Rightarrow> (string \<rightharpoonup> string) option \<Rightarrow>
      string \<times> int \<times> error option) \<Rightarrow>
   (string \<Rightarrow> 'c \<Rightarrow> 'c \<times> error option) \<Rightarrow> 'c \<Rightarrow> string \<Rightarrow>
   string \<Rightarrow> int \<Rightarrow> 'c \<times> error option" where
  "ReverseTransfer k http unm zero uuidV4 transferID amount =
     (let respTransfer = zero;
          urlStr = Sprintf ''%s/%s/%s/reversals'' [baseURL k, pathTransfers k, transferID];
          header = [''X-Idempotency-Key'' \<mapsto> uuidV4];
          refundPayload = \<lparr>Amount = amount\<rparr>
      in case http MethodPost urlStr (Some refundPayload) (Some header) of
           (b, statusCode, Some err) \<Rightarrow> (respTransfer, Some err)
         | (b, statusCode, None) \<Rightarrow>
             if statusCode = http_StatusOK \<or> statusCode = http_StatusAccepted
               then unm b respTransfer
             else if statusCode = http_StatusBadRequest
               then (respTransfer, unmarshalIntoNilError b)
             else if statusCode = http_StatusConflict
               then (respTransfer, Some ErrXIdempotencyKey)
             else if statusCode = http_StatusUnprocessableEntity
               then (respTransfer, Some ErrRequestBody)
             else if statusCode = http_StatusTooManyRequests
               then (respTransfer, Some ErrRateLimit)
             else (respTransfer, Some (ErrDefault statusCode)))"

section \<open>A concrete client\<close>

text \<open>
  Concrete inputs for evaluating the functions: the path constants as the spec gives the
  paths, and a transport that answers every request with the same response.
\<close>

definition examplePaths :: Paths where
  "examplePaths =
     \<lparr>baseURL = ''https://api.moov.io'', pathTransfers = ''/transfers'',
      pathBankAccounts = ''/accounts/%s/bank-accounts'',
      pathMicroDeposits = ''/accounts/%s/bank-accounts/%s/micro-deposits''\<rparr>"

definition answering :: "CallResponse \<Rightarrow> callBuilder \<Rightarrow> error + CallResponse" where
  "answering resp call = Inr resp"

section \<open>Properties of the call statuses\<close>

text \<open>
  C1. The retryability flag of the defined call statuses is true exactly for started,
  rate_limited and server_error, and false for completed, bad_request, state_conflict,
  failed_validation, not_found, unauthenticated and unauthorized: the table of names and
  flags is the one below, and the retryable statuses are those three.
\<close>

theorem retryable_flags:
  "map (\<lambda>s. (Name s, Retryable s)) defined_statuses =
     [(''completed'', False), (''started'', True), (''bad_request'', False),
      (''state_conflict'', False), (''failed_validation'', False), (''not_found'', False),
      (''unauthenticated'', False), (''unauthorized'', False), (''rate_limited'', True),
      (''server_error'', True)]
   \<and> filter Retryable defined_statuses = [StatusStarted, StatusRateLimited, StatusServerError]"
  by (simp add: defined_statuses_def status_defs)

section \<open>Properties of call construction\<close>

lemma prependArgs_append: "prependArgs opts args = args @ opts"
  by (induction opts arbitrary: args) simp_all

lemma applyArgs_append:
  "applyArgs (xs @ ys) call =
     (case applyArgs xs call of Inl err \<Rightarrow> Inl err | Inr call' \<Rightarrow> applyArgs ys call')"
  by (induction xs arbitrary: call) (auto split: prod.splits option.splits sum.splits)

lemma newCall_unfold: "newCall endpoint args = applyArgs (endpoint # args) emptyCall"
  by (simp add: newCall_def prependArgs_append)

lemma newCall_append:
  "newCall endpoint (xs @ ys) =
     (case newCall endpoint xs of Inl err \<Rightarrow> Inl err | Inr call \<Rightarrow> applyArgs ys call)"
  using applyArgs_append [of "endpoint # xs" ys emptyCall] by (simp add: newCall_unfold)

text \<open>
  C8. \<^verbatim>\<open>newCall\<close> applies the options strictly in the order given, the endpoint option
  first: with no further option the result is that of the endpoint option on the fresh
  builder; an option that follows the options \<open>xs\<close> is applied to the builder they left
  (so it can overwrite what they set); and if an option returns an error, that error is
  returned with no builder, whatever options \<open>ys\<close> follow it: none of them is applied.
\<close>

theorem newCall_in_order_fail_fast:
  "newCall endpoint [] =
     (case endpoint emptyCall of (call, None) \<Rightarrow> Inr call | (call, Some err) \<Rightarrow> Inl err)
   \<and> (\<forall>call call'. newCall endpoint xs = Inr call \<longrightarrow> arg call = (call', None) \<longrightarrow>
         newCall endpoint (xs @ [arg]) = Inr call')
   \<and> (\<forall>call call' err. newCall endpoint xs = Inr call \<longrightarrow> arg call = (call', Some err) \<longrightarrow>
         newCall endpoint (xs @ arg # ys) = Inl err)
   \<and> (\<forall>err. newCall endpoint xs = Inl err \<longrightarrow> newCall endpoint (xs @ ys) = Inl err)"
proof -
  have base: "newCall endpoint [] =
     (case endpoint emptyCall of (call, None) \<Rightarrow> Inr call | (call, Some err) \<Rightarrow> Inl err)"
    by (simp add: newCall_unfold split: prod.splits option.splits)
  show ?thesis
    using base by (simp add: newCall_append)
qed

text \<open>
  At a concrete input: a second \<^verbatim>\<open>WaitFor\<close> overwrites the header of the first; a
  \<^verbatim>\<open>JsonBody\<close> whose marshalling fails stops the construction, whatever follows it.
\<close>

theorem newCall_in_order_fail_fast_witness:
  "(\<exists>call call'. newCall (Endpoint ''GET'' ''/x'' []) [WaitFor ''a''] = Inr call
      \<and> WaitFor ''b'' call = (call', None)
      \<and> newCall (Endpoint ''GET'' ''/x'' []) ([WaitFor ''a''] @ [WaitFor ''b'']) = Inr call'
      \<and> headers call ''X-Wait-For'' = Some ''a''
      \<and> headers call' ''X-Wait-For'' = Some ''b'')
   \<and> (\<exists>call. newCall (Endpoint ''GET'' ''/x'' []) [WaitFor ''a''] = Inr call
      \<and> JsonBody (\<lambda>u::unit. Inl (OtherError ''unsupported type'')) () call
           = (call, Some (OtherError ''unsupported type''))
      \<and> newCall (Endpoint ''GET'' ''/x'' [])
           ([WaitFor ''a''] @ JsonBody (\<lambda>u::unit. Inl (OtherError ''unsupported type'')) ()
              # [AcceptJson, WaitFor ''b''])
           = Inl (OtherError ''unsupported type''))
   \<and> newCall (Endpoint ''GET'' ''/x'' [])
        [JsonBody (\<lambda>u::unit. Inl (OtherError ''unsupported type'')) ()]
        = Inl (OtherError ''unsupported type'')
   \<and> newCall (Endpoint ''GET'' ''/x'' [])
        ([JsonBody (\<lambda>u::unit. Inl (OtherError ''unsupported type'')) ()] @ [AcceptJson])
        = Inl (OtherError ''unsupported type'')"
proof -
  let ?E = "Endpoint ''GET'' ''/x'' []"
  let ?J = "JsonBody (\<lambda>u::unit. Inl (OtherError ''unsupported type'')) ()"
  let ?c = "\<lparr>method = ''GET'', path = ''/x'', params = Map.empty,
             headers = [''X-Wait-For'' \<mapsto> ''a''], token = None, body = None\<rparr>"
  let ?c' = "?c\<lparr>headers := [''X-Wait-For'' \<mapsto> ''b'']\<rparr>"
  have h1: "newCall ?E [WaitFor ''a''] = Inr ?c"
    by (simp add: newCall_def Endpoint_def WaitFor_def emptyCall_def)
  have h2: "WaitFor ''b'' ?c = (?c', None)"
    by (simp add: WaitFor_def)
  have h3: "?J ?c = (?c, Some (OtherError ''unsupported type''))"
    by (simp add: JsonBody_def)
  have h4: "newCall ?E [?J] = Inl (OtherError ''unsupported type'')"
    by (simp add: newCall_def Endpoint_def JsonBody_def emptyCall_def)
  from newCall_in_order_fail_fast [of ?E "[WaitFor ''a'']" "WaitFor ''b''" "[]"] h1 h2
  have a: "newCall ?E ([WaitFor ''a''] @ [WaitFor ''b'']) = Inr ?c'"
    by blast
  from newCall_in_order_fail_fast [of ?E "[WaitFor ''a'']" ?J "[AcceptJson, WaitFor ''b'']"] h1 h3
  have b: "newCall ?E ([WaitFor ''a''] @ ?J # [AcceptJson, WaitFor ''b''])
             = Inl (OtherError ''unsupported type'')"
    by blast
  from newCall_in_order_fail_fast [of ?E "[?J]" AcceptJson "[AcceptJson]"] h4
  have c: "newCall ?E ([?J] @ [AcceptJson]) = Inl (OtherError ''unsupported type'')"
    by blast
  have p1: "\<exists>call call'. newCall ?E [WaitFor ''a''] = Inr call
      \<and> WaitFor ''b'' call = (call', None)
      \<and> newCall ?E ([WaitFor ''a''] @ [WaitFor ''b'']) = Inr call'
      \<and> headers call ''X-Wait-For'' = Some ''a''
      \<and> headers call' ''X-Wait-For'' = Some ''b''"
    using h1 h2 a by (intro exI[of _ ?c] exI[of _ ?c']) simp
  have p2: "\<exists>call. newCall ?E [WaitFor ''a''] = Inr call
      \<and> ?J call = (call, Some (OtherError ''unsupported type''))
      \<and> newCall ?E ([WaitFor ''a''] @ ?J # [AcceptJson, WaitFor ''b''])
           = Inl (OtherError ''unsupported type'')"
    using h1 h3 b by (intro exI[of _ ?c]) simp
  show ?thesis using p1 p2 h4 c by blast
qed

lemma status_distinct:
  "StatusStateConflict \<noteq> StatusCompleted" "StatusStateConflict \<noteq> StatusStarted"
  "StatusStateConflict \<noteq> StatusNotFound" "StatusNotFound \<noteq> StatusCompleted"
  "StatusStarted \<noteq> StatusCompleted"
  by (simp_all add: status_defs)

lemma toCallArg_keeps_Content_Type:
  "toCallArg marshal opt call = (call', r) \<Longrightarrow>
   headers call' ''Content-Type'' = headers call ''Content-Type''"
  by (cases opt)
    (auto simp: Endpoint_def JsonBody_def AcceptJson_def WaitFor_def split: sum.splits)

lemma applyArgs_keeps_Content_Type:
  "applyArgs (map (toCallArg marshal) opts) call = Inr call' \<Longrightarrow>
   headers call' ''Content-Type'' = headers call ''Content-Type''"
proof (induction opts arbitrary: call)
  case Nil
  then show ?case by simp
next
  case (Cons opt opts)
  obtain c r where step: "toCallArg marshal opt call = (c, r)"
    by (cases "toCallArg marshal opt call")
  with Cons.prems have "r = None" and rest: "applyArgs (map (toCallArg marshal) opts) c = Inr call'"
    by (auto split: option.splits)
  from Cons.IH [OF rest] toCallArg_keeps_Content_Type [OF step] show ?case
    by simp
qed

text \<open>
  C9. When marshalling succeeds, \<^verbatim>\<open>JsonBody\<close> sets the header whose key is literally
  \<^verbatim>\<open>Context-Type\<close> to \<^verbatim>\<open>application/json\<close>, sets the body to the marshalled bytes and
  leaves the header \<^verbatim>\<open>Content-Type\<close> as it was; and a call built by \<^verbatim>\<open>newCall\<close> from any
  options written with the four constructors of the call builder has no header named
  \<^verbatim>\<open>Content-Type\<close>.
\<close>

theorem JsonBody_sets_Context_Type:
  "(marshal b = Inr payload \<longrightarrow>
      JsonBody marshal b call =
        (call\<lparr>headers := (headers call)(''Context-Type'' \<mapsto> ''application/json''),
               body := Some payload\<rparr>, None)
      \<and> headers (fst (JsonBody marshal b call)) ''Content-Type'' = headers call ''Content-Type'')
   \<and> (\<forall>call'. newCall (toCallArg marshal endpoint) (map (toCallArg marshal) opts) = Inr call' \<longrightarrow>
         headers call' ''Content-Type'' = None)"
proof -
  have a: "marshal b = Inr payload \<longrightarrow>
      JsonBody marshal b call =
        (call\<lparr>headers := (headers call)(''Context-Type'' \<mapsto> ''application/json''),
               body := Some payload\<rparr>, None)
      \<and> headers (fst (JsonBody marshal b call)) ''Content-Type'' = headers call ''Content-Type''"
    by (simp add: JsonBody_def)
  have b: "headers call' ''Content-Type'' = None"
    if "newCall (toCallArg marshal endpoint) (map (toCallArg marshal) opts) = Inr call'" for call'
  proof -
    from that have "applyArgs (map (toCallArg marshal) (endpoint # opts)) emptyCall = Inr call'"
      by (simp add: newCall_unfold)
    from applyArgs_keeps_Content_Type [OF this] show ?thesis
      by (simp add: emptyCall_def)
  qed
  from a b show ?thesis by blast
qed

theorem JsonBody_sets_Context_Type_witness:
  "JsonBody (\<lambda>u::unit. Inr ''{}'') () emptyCall =
     (emptyCall\<lparr>headers := [''Context-Type'' \<mapsto> ''application/json''], body := Some ''{}''\<rparr>, None)
   \<and> (\<exists>call'. newCall (toCallArg (\<lambda>u::unit. Inr ''{}'') (EndpointOpt ''POST'' ''/transfers'' []))
         (map (toCallArg (\<lambda>u::unit. Inr ''{}''))
            [AcceptJsonOpt, JsonBodyOpt (), WaitForOpt ''rail-response'']) = Inr call'
       \<and> headers call' ''Content-Type'' = None
       \<and> headers call' ''Context-Type'' = Some ''application/json''
       \<and> body call' = Some ''{}'')"
proof -
  let ?m = "\<lambda>u::unit. Inr ''{}'' :: error + string"
  let ?c = "\<lparr>method = ''POST'', path = ''/transfers'', params = Map.empty,
             headers = [''Accept'' \<mapsto> ''application/json'',
                        ''Context-Type'' \<mapsto> ''application/json'',
                        ''X-Wait-For'' \<mapsto> ''rail-response''],
             token = None, body = Some ''{}''\<rparr>"
  have built: "newCall (toCallArg ?m (EndpointOpt ''POST'' ''/transfers'' []))
         (map (toCallArg ?m) [AcceptJsonOpt, JsonBodyOpt (), WaitForOpt ''rail-response'']) = Inr ?c"
    by (simp add: newCall_def Endpoint_def JsonBody_def AcceptJson_def WaitFor_def emptyCall_def)
  have m: "?m () = Inr ''{}''" by simp
  from JsonBody_sets_Context_Type
    [of ?m "()" "''{}''" emptyCall "EndpointOpt ''POST'' ''/transfers'' []"
       "[AcceptJsonOpt, JsonBodyOpt (), WaitForOpt ''rail-response'']"] m built
  have "JsonBody ?m () emptyCall =
     (emptyCall\<lparr>headers := (headers emptyCall)(''Context-Type'' \<mapsto> ''application/json''),
                  body := Some ''{}''\<rparr>, None)"
    and "headers ?c ''Content-Type'' = None"
    by blast+
  with built show ?thesis
    by (intro conjI exI[of _ ?c]) (simp_all add: emptyCall_def)
qed

section \<open>Properties of the response combinators\<close>

text \<open>
  C3. As stated the claim fails: a completed response whose body does not decode makes
  \<^verbatim>\<open>CompletedObjectOrError\<close> and \<^verbatim>\<open>CompletedListOrError\<close> return nil and the decoding error,
  not a decoded value.
\<close>

theorem Completed_decode_failure_counterexample:
  "Status \<lparr>Status = StatusCompleted, Body = ''<html>'', Error = None\<rparr> = StatusCompleted
   \<and> CompletedObjectOrError (\<lambda>b. Inl (OtherError ''invalid character'') :: error + nat)
        \<lparr>Status = StatusCompleted, Body = ''<html>'', Error = None\<rparr>
       = (None, Some (OtherError ''invalid character''))
   \<and> CompletedListOrError (\<lambda>b. Inl (OtherError ''invalid character'') :: error + nat list option)
        \<lparr>Status = StatusCompleted, Body = ''<html>'', Error = None\<rparr>
       = (None, Some (OtherError ''invalid character''))"
  by (simp add: CompletedObjectOrError_def CompletedListOrError_def
      UnmarshalObjectResponse_def UnmarshalListResponse_def)

text \<open>
  C3, amended. On a completed response \<^verbatim>\<open>CompletedNilOrError\<close> returns nil, and the
  other two return what decoding the body gives: the decoded object or list with a nil
  error, or nil with the decoding error. \<^verbatim>\<open>CompletedObjectOrError\<close> returns a decoded object
  with a nil error exactly when the status is completed and the body decodes. On every
  other status the three return \<^verbatim>\<open>resp.Error()\<close> as the error, with a nil pointer or a nil
  slice. If \<^verbatim>\<open>resp.Error()\<close> is not nil on the statuses other than completed, then
  \<^verbatim>\<open>CompletedNilOrError\<close> returns nil exactly when the status is completed, and
  \<^verbatim>\<open>CompletedListOrError\<close> returns a list with a nil error exactly when the status is
  completed and the body decodes.
\<close>

theorem Completed_combinators:
  "(Status resp = StatusCompleted \<longrightarrow> CompletedNilOrError resp = None)
   \<and> ((CompletedObjectOrError dec resp = (Some x, None))
        = (Status resp = StatusCompleted \<and> dec (Body resp) = Inr x))
   \<and> (Status resp = StatusCompleted \<longrightarrow> decL (Body resp) = Inr xs \<longrightarrow>
        CompletedListOrError decL resp = (xs, None))
   \<and> (Status resp = StatusCompleted \<longrightarrow> dec (Body resp) = Inl err \<longrightarrow>
        CompletedObjectOrError dec resp = (None, Some err))
   \<and> (Status resp = StatusCompleted \<longrightarrow> decL (Body resp) = Inl err \<longrightarrow>
        CompletedListOrError decL resp = (None, Some err))
   \<and> (Status resp \<noteq> StatusCompleted \<longrightarrow>
        CompletedNilOrError resp = Error resp
        \<and> CompletedObjectOrError dec resp = (None, Error resp)
        \<and> CompletedListOrError decL resp = (None, Error resp))
   \<and> ((Status resp \<noteq> StatusCompleted \<longrightarrow> Error resp \<noteq> None) \<longrightarrow>
        ((CompletedNilOrError resp = None) = (Status resp = StatusCompleted))
        \<and> ((CompletedListOrError decL resp = (xs, None))
             = (Status resp = StatusCompleted \<and> decL (Body resp) = Inr xs)))"
  by (auto simp: CompletedNilOrError_def CompletedObjectOrError_def CompletedListOrError_def
      UnmarshalObjectResponse_def UnmarshalListResponse_def split: sum.splits)

theorem Completed_combinators_witness:
  "CompletedNilOrError \<lparr>Status = StatusCompleted, Body = ''{}'', Error = None\<rparr> = None
   \<and> CompletedObjectOrError
        (\<lambda>b. if b = ''{}'' then Inr (0::nat) else Inl (OtherError ''unexpected end of JSON input''))
        \<lparr>Status = StatusCompleted, Body = ''{}'', Error = None\<rparr> = (Some 0, None)
   \<and> CompletedListOrError
        (\<lambda>b. if b = ''{}'' then Inr (Some [0::nat]) else Inl (OtherError ''unexpected end of JSON input''))
        \<lparr>Status = StatusCompleted, Body = ''{}'', Error = None\<rparr> = (Some [0], None)
   \<and> CompletedObjectOrError
        (\<lambda>b. if b = ''{}'' then Inr (0::nat) else Inl (OtherError ''unexpected end of JSON input''))
        \<lparr>Status = StatusCompleted, Body = [], Error = None\<rparr>
       = (None, Some (OtherError ''unexpected end of JSON input''))
   \<and> CompletedListOrError
        (\<lambda>b. if b = ''{}'' then Inr (Some [0::nat]) else Inl (OtherError ''unexpected end of JSON input''))
        \<lparr>Status = StatusCompleted, Body = [], Error = None\<rparr>
       = (None, Some (OtherError ''unexpected end of JSON input''))
   \<and> CompletedNilOrError
        \<lparr>Status = StatusNotFound, Body = [], Error = Some (OtherError ''not found'')\<rparr>
       = Some (OtherError ''not found'')
   \<and> CompletedObjectOrError
        (\<lambda>b. if b = ''{}'' then Inr (0::nat) else Inl (OtherError ''unexpected end of JSON input''))
        \<lparr>Status = StatusNotFound, Body = [], Error = Some (OtherError ''not found'')\<rparr>
       = (None, Some (OtherError ''not found''))
   \<and> CompletedListOrError
        (\<lambda>b. if b = ''{}'' then Inr (Some [0::nat]) else Inl (OtherError ''unexpected end of JSON input''))
        \<lparr>Status = StatusNotFound, Body = [], Error = Some (OtherError ''not found'')\<rparr>
       = (None, Some (OtherError ''not found''))"
proof -
  let ?dec = "\<lambda>b. if b = ''{}'' then Inr (0::nat) else Inl (OtherError ''unexpected end of JSON input'')"
  let ?decL = "\<lambda>b. if b = ''{}'' then Inr (Some [0::nat])
                    else Inl (OtherError ''unexpected end of JSON input'')"
  let ?ok = "\<lparr>Status = StatusCompleted, Body = ''{}'', Error = None\<rparr>"
  let ?bad = "\<lparr>Status = StatusCompleted, Body = [], Error = None\<rparr>"
  let ?nf = "\<lparr>Status = StatusNotFound, Body = [], Error = Some (OtherError ''not found'')\<rparr>"
  have ne: "StatusNotFound \<noteq> StatusCompleted"
    by (simp add: status_defs)
  show ?thesis
    using Completed_combinators
        [where resp = ?ok and dec = ?dec and x = 0 and decL = ?decL and xs = "Some [0]"
           and err = "OtherError ''unexpected end of JSON input''"]
      Completed_combinators
        [where resp = ?bad and dec = ?dec and x = 0 and decL = ?decL and xs = "Some [0]"
           and err = "OtherError ''unexpected end of JSON input''"]
      Completed_combinators
        [where resp = ?nf and dec = ?dec and x = 0 and decL = ?decL and xs = "Some [0]"
           and err = "OtherError ''unexpected end of JSON input''"]
      ne
    by simp
qed

section \<open>Properties of the bank account endpoints\<close>

text \<open>
  C7. When the call returns a response, \<^verbatim>\<open>CreateBankAccount\<close> returns
  \<^verbatim>\<open>ErrDuplicateBankAccount\<close> on a state conflict, and \<^verbatim>\<open>MicroDepositConfirm\<close> returns
  \<^verbatim>\<open>ErrNoMicroDeposit\<close> on not found and \<^verbatim>\<open>ErrAmountIncorrect\<close> on a state conflict,
  whatever \<^verbatim>\<open>resp.Error()\<close> is; the three named errors are distinct.
\<close>

theorem bank_account_named_errors:
  "(callHttp (Endpoint MethodPost (pathBankAccounts k) [accountID])
       [AcceptJson, JsonBody marshal bankAccount] = Inr resp \<longrightarrow>
     Status resp = StatusStateConflict \<longrightarrow>
     CreateBankAccount k callHttp marshal dec accountID bankAccount
       = (None, Some ErrDuplicateBankAccount))
   \<and> (callHttp (Endpoint MethodPut (pathMicroDeposits k) [accountID, bankAccountID])
       [AcceptJson, JsonBody marshalA [(''amounts'', amounts)]] = Inr resp' \<longrightarrow>
     (Status resp' = StatusNotFound \<longrightarrow>
        MicroDepositConfirm k callHttp marshalA accountID bankAccountID amounts
          = Some ErrNoMicroDeposit)
     \<and> (Status resp' = StatusStateConflict \<longrightarrow>
        MicroDepositConfirm k callHttp marshalA accountID bankAccountID amounts
          = Some ErrAmountIncorrect))
   \<and> distinct [ErrDuplicateBankAccount, ErrNoMicroDeposit, ErrAmountIncorrect]"
  by (simp add: CreateBankAccount_def MicroDepositConfirm_def status_distinct)

theorem bank_account_named_errors_witness:
  "CallHttp (answering \<lparr>Status = StatusStateConflict, Body = [],
                         Error = Some (OtherError ''state_conflict'')\<rparr>)
      (Endpoint MethodPost (pathBankAccounts examplePaths) [''acct-1''])
      [AcceptJson, JsonBody (\<lambda>u::unit. Inr ''{}'') ()]
     = Inr \<lparr>Status = StatusStateConflict, Body = [], Error = Some (OtherError ''state_conflict'')\<rparr>
   \<and> CreateBankAccount examplePaths
        (CallHttp (answering \<lparr>Status = StatusStateConflict, Body = [],
                              Error = Some (OtherError ''state_conflict'')\<rparr>))
        (\<lambda>u::unit. Inr ''{}'') (\<lambda>b. Inr ()) ''acct-1'' ()
       = (None, Some ErrDuplicateBankAccount)
   \<and> MicroDepositConfirm examplePaths
        (CallHttp (answering \<lparr>Status = StatusStateConflict, Body = [],
                              Error = Some (OtherError ''state_conflict'')\<rparr>))
        (\<lambda>p. Inr ''{}'') ''acct-1'' ''bank-1'' [3, 7]
       = Some ErrAmountIncorrect
   \<and> MicroDepositConfirm examplePaths
        (CallHttp (answering \<lparr>Status = StatusNotFound, Body = [],
                              Error = Some (OtherError ''not_found'')\<rparr>))
        (\<lambda>p. Inr ''{}'') ''acct-1'' ''bank-1'' [3, 7]
       = Some ErrNoMicroDeposit"
proof -
  let ?sc = "\<lparr>Status = StatusStateConflict, Body = [],
              Error = Some (OtherError ''state_conflict'')\<rparr>"
  let ?nf = "\<lparr>Status = StatusNotFound, Body = [], Error = Some (OtherError ''not_found'')\<rparr>"
  let ?m = "\<lambda>u::unit. Inr ''{}'' :: error + string"
  let ?mA = "\<lambda>p::(string \<times> int list) list. Inr ''{}'' :: error + string"
  have sent: "CallHttp (answering r) (Endpoint m p as) [AcceptJson, JsonBody (\<lambda>u. Inr ''{}'') b] = Inr r"
    for r m p as and b :: 'x
    by (simp add: CallHttp_def newCall_def Endpoint_def AcceptJson_def JsonBody_def answering_def)
  show ?thesis
    using bank_account_named_errors
        [where callHttp = "CallHttp (answering ?sc)" and k = examplePaths
           and accountID = "''acct-1''" and marshal = ?m and bankAccount = "()" and resp = ?sc
           and dec = "\<lambda>b. Inr ()" and bankAccountID = "''bank-1''" and marshalA = ?mA
           and amounts = "[3, 7]" and resp' = ?sc]
      bank_account_named_errors
        [where callHttp = "CallHttp (answering ?nf)" and k = examplePaths
           and accountID = "''acct-1''" and marshal = ?m and bankAccount = "()" and resp = ?nf
           and dec = "\<lambda>b. Inr ()" and bankAccountID = "''bank-1''" and marshalA = ?mA
           and amounts = "[3, 7]" and resp' = ?nf]
    by (simp add: sent)
qed

text \<open>
  C10. \<^verbatim>\<open>GetBankAccount\<close> and \<^verbatim>\<open>DeleteBankAccount\<close> do not use their \<open>bankAccountID\<close>:
  for every client, which receives the options the function builds, and every account,
  any two values of \<open>bankAccountID\<close> give the same call and the same result.
\<close>

theorem bankAccountID_unused:
  "GetBankAccount k callHttp dec accountID bankAccountID
     = GetBankAccount k callHttp dec accountID bankAccountID'
   \<and> DeleteBankAccount k callHttp accountID bankAccountID
     = DeleteBankAccount k callHttp accountID bankAccountID'"
  by (simp add: GetBankAccount_def DeleteBankAccount_def)

text \<open>
  The request the two functions build, with the client of the spec: it names the account
  only.
\<close>

lemma GetBankAccount_request:
  "GetBankAccount k (CallHttp send) dec accountID bankAccountID =
     (case send (emptyCall\<lparr>method := ''GET'', path := Sprintf (pathBankAccounts k) [accountID],
                   headers := [''Accept'' \<mapsto> ''application/json'']\<rparr>) of
        Inl err \<Rightarrow> (None, Some err)
      | Inr resp \<Rightarrow> CompletedObjectOrError dec resp)"
  by (simp add: GetBankAccount_def CallHttp_def newCall_def Endpoint_def AcceptJson_def
      MethodGet_def emptyCall_def)

lemma DeleteBankAccount_request:
  "DeleteBankAccount k (CallHttp send) accountID bankAccountID =
     (case send (emptyCall\<lparr>method := ''DELETE'',
                   path := Sprintf (pathBankAccounts k) [accountID]\<rparr>) of
        Inl err \<Rightarrow> Some err
      | Inr resp \<Rightarrow> CompletedNilOrError resp)"
  by (simp add: DeleteBankAccount_def CallHttp_def newCall_def Endpoint_def
      MethodDelete_def emptyCall_def)

section \<open>Properties of the transfer endpoints\<close>

text \<open>
  C4. As stated the claim fails: a \<^verbatim>\<open>CreateTransfer\<close> with \<open>isSync\<close> true whose
  response is completed, but whose body does not decode, returns no transfer at all.
\<close>

theorem CreateTransfer_decode_failure_counterexample:
  "Status \<lparr>Status = StatusCompleted, Body = ''<html>'', Error = None\<rparr> = StatusCompleted
   \<and> CreateTransfer examplePaths
        (\<lambda>endpoint args. Inr \<lparr>Status = StatusCompleted, Body = ''<html>'', Error = None\<rparr>)
        (\<lambda>t::unit. Inr ''{}'')
        (\<lambda>b. Inl (OtherError ''invalid character'') :: error + unit)
        (\<lambda>b. Inl (OtherError ''invalid character''))
        () True
       = (None, None, Some (OtherError ''invalid character''))"
  by (simp add: CreateTransfer_def UnmarshalObjectResponse_def)

text \<open>
  C4, amended. For a \<^verbatim>\<open>CreateTransfer\<close> with \<open>isSync\<close> true whose call returns a
  response: if the status is completed and the body decodes, the result is the decoded
  \<^verbatim>\<open>SynchronousTransfer\<close>, a nil \<^verbatim>\<open>AsynchronousTransfer\<close> and no error; if the status is
  started and the body decodes, it is a nil \<^verbatim>\<open>SynchronousTransfer\<close>, the decoded
  \<^verbatim>\<open>AsynchronousTransfer\<close>, which has the fields \<^verbatim>\<open>TransferID\<close> and \<^verbatim>\<open>CreatedOn\<close> only, and
  no error; in both cases a body that does not decode gives two nil transfers and the
  decoding error.
\<close>

theorem CreateTransfer_sync_outcomes:
  "callHttp (Endpoint MethodPost (pathTransfers k) [])
       [AcceptJson, JsonBody marshal transfer, WaitFor ''rail-response''] = Inr resp \<longrightarrow>
     (Status resp = StatusCompleted \<longrightarrow> decS (Body resp) = Inr st \<longrightarrow>
        CreateTransfer k callHttp marshal decS decA transfer True = (Some st, None, None))
     \<and> (Status resp = StatusCompleted \<longrightarrow> decS (Body resp) = Inl err \<longrightarrow>
        CreateTransfer k callHttp marshal decS decA transfer True = (None, None, Some err))
     \<and> (Status resp = StatusStarted \<longrightarrow> decA (Body resp) = Inr at \<longrightarrow>
        CreateTransfer k callHttp marshal decS decA transfer True = (None, Some at, None)
        \<and> at = \<lparr>TransferID = TransferID at, CreatedOn = CreatedOn at\<rparr>)
     \<and> (Status resp = StatusStarted \<longrightarrow> decA (Body resp) = Inl err \<longrightarrow>
        CreateTransfer k callHttp marshal decS decA transfer True = (None, None, Some err))"
  by (simp add: CreateTransfer_def UnmarshalObjectResponse_def status_distinct)

theorem CreateTransfer_sync_outcomes_witness:
  "CreateTransfer examplePaths
      (CallHttp (answering \<lparr>Status = StatusCompleted, Body = ''sync'', Error = None\<rparr>))
      (\<lambda>t::unit. Inr ''{}'')
      (\<lambda>b. if b = ''sync'' then Inr (1::nat) else Inl (OtherError ''cannot unmarshal''))
      (\<lambda>b. if b = ''async''
            then Inr \<lparr>TransferID = ''t-1'', CreatedOn = \<lparr>sec = 63800000000, nsec = 0\<rparr>\<rparr>
            else Inl (OtherError ''cannot unmarshal''))
      () True
     = (Some 1, None, None)
   \<and> CreateTransfer examplePaths
      (CallHttp (answering \<lparr>Status = StatusStarted, Body = ''async'', Error = None\<rparr>))
      (\<lambda>t::unit. Inr ''{}'')
      (\<lambda>b. if b = ''sync'' then Inr (1::nat) else Inl (OtherError ''cannot unmarshal''))
      (\<lambda>b. if b = ''async''
            then Inr \<lparr>TransferID = ''t-1'', CreatedOn = \<lparr>sec = 63800000000, nsec = 0\<rparr>\<rparr>
            else Inl (OtherError ''cannot unmarshal''))
      () True
     = (None, Some \<lparr>TransferID = ''t-1'', CreatedOn = \<lparr>sec = 63800000000, nsec = 0\<rparr>\<rparr>, None)
   \<and> CreateTransfer examplePaths
      (CallHttp (answering \<lparr>Status = StatusStarted, Body = ''<html>'', Error = None\<rparr>))
      (\<lambda>t::unit. Inr ''{}'')
      (\<lambda>b. if b = ''sync'' then Inr (1::nat) else Inl (OtherError ''cannot unmarshal''))
      (\<lambda>b. if b = ''async''
            then Inr \<lparr>TransferID = ''t-1'', CreatedOn = \<lparr>sec = 63800000000, nsec = 0\<rparr>\<rparr>
            else Inl (OtherError ''cannot unmarshal''))
      () True
     = (None, None, Some (OtherError ''cannot unmarshal''))"
proof -
  let ?m = "\<lambda>t::unit. Inr ''{}'' :: error + string"
  let ?decS = "\<lambda>b. if b = ''sync'' then Inr (1::nat) else Inl (OtherError ''cannot unmarshal'')"
  let ?at = "\<lparr>TransferID = ''t-1'', CreatedOn = \<lparr>sec = 63800000000, nsec = 0\<rparr>\<rparr>"
  let ?decA = "\<lambda>b. if b = ''async'' then Inr ?at else Inl (OtherError ''cannot unmarshal'')"
  let ?r1 = "\<lparr>Status = StatusCompleted, Body = ''sync'', Error = None\<rparr>"
  let ?r2 = "\<lparr>Status = StatusStarted, Body = ''async'', Error = None\<rparr>"
  let ?r3 = "\<lparr>Status = StatusStarted, Body = ''<html>'', Error = None\<rparr>"
  have sent: "CallHttp (answering r) (Endpoint m p as)
                [AcceptJson, JsonBody ?m (), WaitFor ''rail-response''] = Inr r" for r m p as
    by (simp add: CallHttp_def newCall_def Endpoint_def AcceptJson_def JsonBody_def WaitFor_def
        answering_def)
  show ?thesis
    using CreateTransfer_sync_outcomes
        [where callHttp = "CallHttp (answering ?r1)" and k = examplePaths and marshal = ?m
            and transfer = "()" and resp = ?r1 and decS = ?decS and st = 1
            and err = "OtherError ''cannot unmarshal''" and decA = ?decA and at = ?at]
      CreateTransfer_sync_outcomes
        [where callHttp = "CallHttp (answering ?r2)" and k = examplePaths and marshal = ?m
            and transfer = "()" and resp = ?r2 and decS = ?decS and st = 1
            and err = "OtherError ''cannot unmarshal''" and decA = ?decA and at = ?at]
      CreateTransfer_sync_outcomes
        [where callHttp = "CallHttp (answering ?r3)" and k = examplePaths and marshal = ?m
            and transfer = "()" and resp = ?r3 and decS = ?decS and st = 1
            and err = "OtherError ''cannot unmarshal''" and decA = ?decA and at = ?at]
    by (simp add: sent status_distinct)
qed

text \<open>
  C5. \<^verbatim>\<open>CreateTransfer\<close> on a state conflict, and \<^verbatim>\<open>RefundTransfer\<close> and
  \<^verbatim>\<open>ReverseTransfer\<close> on HTTP 409, return \<^verbatim>\<open>ErrXIdempotencyKey\<close>, which is not a generic
  \<^verbatim>\<open>ErrDefault\<close> error.
\<close>

theorem idempotency_conflict_error:
  "(callHttp (Endpoint MethodPost (pathTransfers k) [])
        ([AcceptJson, JsonBody marshal transfer]
           @ (if isSync then [WaitFor ''rail-response''] else [])) = Inr resp \<longrightarrow>
      Status resp = StatusStateConflict \<longrightarrow>
      CreateTransfer k callHttp marshal decS decA transfer isSync
        = (None, None, Some ErrXIdempotencyKey))
   \<and> (http MethodPost (Sprintf ''%s/%s/%s/refunds'' [baseURL k, pathTransfers k, transferID])
        (Some \<lparr>Amount = amount\<rparr>)
        (Some (if isSync then [''X-Idempotency-Key'' \<mapsto> uuid, ''X-Wait-For'' \<mapsto> ''rail-response'']
               else [''X-Idempotency-Key'' \<mapsto> uuid]))
        = (b, 409, None) \<longrightarrow>
      RefundTransfer k http unm zero uuid transferID isSync amount
        = (zero, Some ErrXIdempotencyKey))
   \<and> (http MethodPost (Sprintf ''%s/%s/%s/reversals'' [baseURL k, pathTransfers k, transferID])
        (Some \<lparr>Amount = amount\<rparr>) (Some [''X-Idempotency-Key'' \<mapsto> uuid])
        = (b, 409, None) \<longrightarrow>
      ReverseTransfer k http unm' zero' uuid transferID amount
        = (zero', Some ErrXIdempotencyKey))
   \<and> (\<forall>code. ErrXIdempotencyKey \<noteq> ErrDefault code)"
proof -
  have create: "CreateTransfer k callHttp marshal decS decA transfer isSync
        = (None, None, Some ErrXIdempotencyKey)"
    if "callHttp (Endpoint MethodPost (pathTransfers k) [])
        ([AcceptJson, JsonBody marshal transfer]
           @ (if isSync then [WaitFor ''rail-response''] else [])) = Inr resp"
      and "Status resp = StatusStateConflict"
    using that by (cases isSync) (simp_all add: CreateTransfer_def status_distinct)
  have refund: "RefundTransfer k http unm zero uuid transferID isSync amount
        = (zero, Some ErrXIdempotencyKey)"
    if "http MethodPost (Sprintf ''%s/%s/%s/refunds'' [baseURL k, pathTransfers k, transferID])
        (Some \<lparr>Amount = amount\<rparr>)
        (Some (if isSync then [''X-Idempotency-Key'' \<mapsto> uuid, ''X-Wait-For'' \<mapsto> ''rail-response'']
               else [''X-Idempotency-Key'' \<mapsto> uuid]))
        = (b, 409, None)"
    using that by (cases isSync) (simp_all add: RefundTransfer_def http_status_defs)
  have reverse: "ReverseTransfer k http unm' zero' uuid transferID amount
        = (zero', Some ErrXIdempotencyKey)"
    if "http MethodPost (Sprintf ''%s/%s/%s/reversals'' [baseURL k, pathTransfers k, transferID])
        (Some \<lparr>Amount = amount\<rparr>) (Some [''X-Idempotency-Key'' \<mapsto> uuid])
        = (b, 409, None)"
    using that by (simp add: ReverseTransfer_def http_status_defs)
  from create refund reverse show ?thesis by simp
qed

theorem idempotency_conflict_error_witness:
  "CreateTransfer examplePaths
      (CallHttp (answering \<lparr>Status = StatusStateConflict, Body = [],
                            Error = Some (OtherError ''state_conflict'')\<rparr>))
      (\<lambda>t::unit. Inr ''{}'') (\<lambda>b. Inr (1::nat))
      (\<lambda>b. Inr \<lparr>TransferID = ''t-1'', CreatedOn = \<lparr>sec = 0, nsec = 0\<rparr>\<rparr>) () False
     = (None, None, Some ErrXIdempotencyKey)
   \<and> RefundTransfer examplePaths (\<lambda>m u p h. ([], 409, None)) (\<lambda>b r. (r, None)) (0::nat)
        ''6ba7b810-9dad-41d1-80b4-00c04fd430c8'' ''t-1'' True 100
     = (0, Some ErrXIdempotencyKey)
   \<and> ReverseTransfer examplePaths (\<lambda>m u p h. ([], 409, None)) (\<lambda>b r. (r, None)) (0::nat)
        ''6ba7b810-9dad-41d1-80b4-00c04fd430c8'' ''t-1'' 100
     = (0, Some ErrXIdempotencyKey)"
proof -
  let ?sc = "\<lparr>Status = StatusStateConflict, Body = [],
              Error = Some (OtherError ''state_conflict'')\<rparr>"
  let ?m = "\<lambda>t::unit. Inr ''{}'' :: error + string"
  let ?decA = "\<lambda>b::string. Inr \<lparr>TransferID = ''t-1'', CreatedOn = \<lparr>sec = 0, nsec = 0\<rparr>\<rparr>
                 :: error + AsynchronousTransfer"
  let ?http = "\<lambda>(m::string) (u::string) (p::RefundPayload option)
                 (h::(string \<rightharpoonup> string) option). ([]::string, 409::int, None::error option)"
  have sent: "CallHttp (answering ?sc) (Endpoint m p as) [AcceptJson, JsonBody ?m ()] = Inr ?sc"
    for m p as
    by (simp add: CallHttp_def newCall_def Endpoint_def AcceptJson_def JsonBody_def answering_def)
  show ?thesis
    using idempotency_conflict_error
        [where callHttp = "CallHttp (answering ?sc)" and k = examplePaths and marshal = ?m
           and transfer = "()" and isSync = False and resp = ?sc
           and decS = "\<lambda>b. Inr (1::nat)" and decA = ?decA
           and http = ?http and transferID = "''t-1''" and amount = 100
           and uuid = "''6ba7b810-9dad-41d1-80b4-00c04fd430c8''" and b = "[]"
           and unm = "\<lambda>b r. (r, None)" and zero = "0::nat"
           and unm' = "\<lambda>b r. (r, None)" and zero' = "0::nat"]
      idempotency_conflict_error
        [where callHttp = "CallHttp (answering ?sc)" and k = examplePaths and marshal = ?m
           and transfer = "()" and isSync = True and resp = ?sc
           and decS = "\<lambda>b. Inr (1::nat)" and decA = ?decA
           and http = ?http and transferID = "''t-1''" and amount = 100
           and uuid = "''6ba7b810-9dad-41d1-80b4-00c04fd430c8''" and b = "[]"
           and unm = "\<lambda>b r. (r, None)" and zero = "0::nat"
           and unm' = "\<lambda>b r. (r, None)" and zero' = "0::nat"]
    by (simp add: sent)
qed

text \<open>
  C2. The claim asks for a non-nil error on every outcome that is not a success. On
  HTTP 400 \<^verbatim>\<open>RefundTransfer\<close> and \<^verbatim>\<open>ReverseTransfer\<close> return the zero value and a nil error,
  whatever the body is.
\<close>

theorem refund_bad_request_nil_error:
  "RefundTransfer k (\<lambda>m u p h. (b, 400, None)) unm zero uuid transferID isSync amount
     = (zero, None)
   \<and> ReverseTransfer k (\<lambda>m u p h. (b, 400, None)) unm' zero' uuid transferID amount
     = (zero', None)"
  by (simp add: RefundTransfer_def ReverseTransfer_def http_status_defs unmarshalIntoNilError_def)

subsection \<open>The query of ListTransfers\<close>

lemma ListTransfers_values_apply:
  "ListTransfers_values rfc3339 payload key =
     (if Disputed payload \<and> key = ''disputed'' then Some [''true'']
      else if Refunded payload \<and> key = ''refunded'' then Some [''true'']
      else if Skip payload > 0 \<and> key = ''skip'' then Some [Sprint (Skip payload)]
      else if Count payload > 0 \<and> key = ''count'' then Some [Sprint (Count payload)]
      else if GroupID payload \<noteq> [] \<and> key = ''groupID'' then Some [GroupID payload]
      else if \<not> IsZero (EndDateTime payload) \<and> key = ''endDateTime''
        then Some [rfc3339 (EndDateTime payload)]
      else if \<not> IsZero (StartDateTime payload) \<and> key = ''startDateTime''
        then Some [rfc3339 (StartDateTime payload)]
      else if Status_q payload \<noteq> [] \<and> key = ''status'' then Some [Status_q payload]
      else if AccountIDs payload \<noteq> [] \<and> key = ''accountIDs''
        then Some [Join (AccountIDs payload) '','']
      else None)"
proof -
  define addIf :: "bool \<Rightarrow> string \<Rightarrow> string \<Rightarrow> Values \<Rightarrow> Values"
    where "addIf = (\<lambda>c k val v. if c then Values_Add v k val else v)"
  have fold: "(if c then Values_Add v k val else v) = addIf c k val v" for c v k val
    by (simp add: addIf_def)
  have other_key: "addIf c k val v k' = v k'" if "k' \<noteq> k" for c k val v k'
    using that by (simp add: addIf_def Values_Add_def)
  have fresh: "addIf c k val v k' = (if c \<and> k' = k then Some [val] else v k')"
    if "v k = None" for c k val v k'
    using that by (simp add: addIf_def Values_Add_def)
  define m1 where "m1 = addIf (0 < length (AccountIDs payload)) ''accountIDs'' (Join (AccountIDs payload) '','') Map.empty"
  define m2 where "m2 = addIf (Status_q payload \<noteq> []) ''status'' (Status_q payload) m1"
  define m3 where "m3 = addIf (\<not> IsZero (StartDateTime payload)) ''startDateTime'' (rfc3339 (StartDateTime payload)) m2"
  define m4 where "m4 = addIf (\<not> IsZero (EndDateTime payload)) ''endDateTime'' (rfc3339 (EndDateTime payload)) m3"
  define m5 where "m5 = addIf (GroupID payload \<noteq> []) ''groupID'' (GroupID payload) m4"
  define m6 where "m6 = addIf (0 < Count payload) ''count'' (Sprint (Count payload)) m5"
  define m7 where "m7 = addIf (0 < Skip payload) ''skip'' (Sprint (Skip payload)) m6"
  define m8 where "m8 = addIf (Refunded payload) ''refunded'' (''true'') m7"
  define m9 where "m9 = addIf (Disputed payload) ''disputed'' (''true'') m8"
  have at1: "m1 k = (if (0 < length (AccountIDs payload)) \<and> k = ''accountIDs'' then Some [Join (AccountIDs payload) '',''] else None)" for k
    unfolding m1_def by (rule fresh) (simp)
  have at2: "m2 k = (if (Status_q payload \<noteq> []) \<and> k = ''status'' then Some [Status_q payload] else m1 k)" for k
    unfolding m2_def by (rule fresh) (simp add: at1)
  have at3: "m3 k = (if (\<not> IsZero (StartDateTime payload)) \<and> k = ''startDateTime'' then Some [rfc3339 (StartDateTime payload)] else m2 k)" for k
    unfolding m3_def by (rule fresh) (simp add: at2 at1)
  have at4: "m4 k = (if (\<not> IsZero (EndDateTime payload)) \<and> k = ''endDateTime'' then Some [rfc3339 (EndDateTime payload)] else m3 k)" for k
    unfolding m4_def by (rule fresh) (simp add: at3 at2 at1)
  have at5: "m5 k = (if (GroupID payload \<noteq> []) \<and> k = ''groupID'' then Some [GroupID payload] else m4 k)" for k
    unfolding m5_def by (rule fresh) (simp add: at4 at3 at2 at1)
  have at6: "m6 k = (if (0 < Count payload) \<and> k = ''count'' then Some [Sprint (Count payload)] else m5 k)" for k
    unfolding m6_def by (rule fresh) (simp add: at5 at4 at3 at2 at1)
  have at7: "m7 k = (if (0 < Skip payload) \<and> k = ''skip'' then Some [Sprint (Skip payload)] else m6 k)" for k
    unfolding m7_def by (rule fresh) (simp add: at6 at5 at4 at3 at2 at1)
  have at8: "m8 k = (if (Refunded payload) \<and> k = ''refunded'' then Some [''true''] else m7 k)" for k
    unfolding m8_def by (rule fresh) (simp add: at7 at6 at5 at4 at3 at2 at1)
  have at9: "m9 k = (if (Disputed payload) \<and> k = ''disputed'' then Some [''true''] else m8 k)" for k
    unfolding m9_def by (rule fresh) (simp add: at8 at7 at6 at5 at4 at3 at2 at1)
  have chain: "ListTransfers_values rfc3339 payload = m9"
    unfolding ListTransfers_values_def m9_def m8_def m7_def m6_def m5_def m4_def m3_def m2_def m1_def
    by (simp only: fold Let_def)
  show ?thesis
    unfolding chain by (simp add: at9 at8 at7 at6 at5 at4 at3 at2 at1)
qed

text \<open>
  C6. As stated the claim fails: a negative \<^verbatim>\<open>Count\<close> is not the zero value, and the
  query has no \<^verbatim>\<open>count\<close> parameter.
\<close>

theorem ListTransfers_negative_count_counterexample:
  "Count \<lparr>AccountIDs = [], Status_q = [], StartDateTime = \<lparr>sec = 0, nsec = 0\<rparr>,
          EndDateTime = \<lparr>sec = 0, nsec = 0\<rparr>, GroupID = [], Count = - 1, Skip = 0,
          Refunded = False, Disputed = False\<rparr> \<noteq> 0
   \<and> ListTransfers_values (\<lambda>t. ''0001-01-01T00:00:00Z'')
        \<lparr>AccountIDs = [], Status_q = [], StartDateTime = \<lparr>sec = 0, nsec = 0\<rparr>,
          EndDateTime = \<lparr>sec = 0, nsec = 0\<rparr>, GroupID = [], Count = - 1, Skip = 0,
          Refunded = False, Disputed = False\<rparr> ''count'' = None"
  by (simp add: ListTransfers_values_apply)

text \<open>
  C6, amended. In the \<^verbatim>\<open>url.Values\<close> from which \<^verbatim>\<open>ListTransfers\<close> encodes the query,
  \<^verbatim>\<open>accountIDs\<close> is present exactly when the list is not empty, with the IDs joined by
  commas as its one value; \<^verbatim>\<open>status\<close> and \<^verbatim>\<open>groupID\<close> exactly when the string is not
  empty, with the string; \<^verbatim>\<open>startDateTime\<close> and \<^verbatim>\<open>endDateTime\<close> exactly when the time is
  not zero, formatted as RFC3339; \<^verbatim>\<open>count\<close> and \<^verbatim>\<open>skip\<close> exactly when the number is
  greater than zero, in decimal; \<^verbatim>\<open>refunded\<close> and \<^verbatim>\<open>disputed\<close> exactly when the flag is
  true, as \<^verbatim>\<open>true\<close>. There is no other parameter, and with \<^verbatim>\<open>Count\<close> and \<^verbatim>\<open>Skip\<close> both 0
  neither \<^verbatim>\<open>count\<close> nor \<^verbatim>\<open>skip\<close> is present.
\<close>

theorem ListTransfers_query_parameters:
  "ListTransfers_values rfc3339 payload ''accountIDs''
     = (if AccountIDs payload \<noteq> [] then Some [Join (AccountIDs payload) '',''] else None)
   \<and> ListTransfers_values rfc3339 payload ''status''
     = (if Status_q payload \<noteq> [] then Some [Status_q payload] else None)
   \<and> ListTransfers_values rfc3339 payload ''startDateTime''
     = (if IsZero (StartDateTime payload) then None else Some [rfc3339 (StartDateTime payload)])
   \<and> ListTransfers_values rfc3339 payload ''endDateTime''
     = (if IsZero (EndDateTime payload) then None else Some [rfc3339 (EndDateTime payload)])
   \<and> ListTransfers_values rfc3339 payload ''groupID''
     = (if GroupID payload \<noteq> [] then Some [GroupID payload] else None)
   \<and> ListTransfers_values rfc3339 payload ''count''
     = (if Count payload > 0 then Some [Sprint (Count payload)] else None)
   \<and> ListTransfers_values rfc3339 payload ''skip''
     = (if Skip payload > 0 then Some [Sprint (Skip payload)] else None)
   \<and> ListTransfers_values rfc3339 payload ''refunded''
     = (if Refunded payload then Some [''true''] else None)
   \<and> ListTransfers_values rfc3339 payload ''disputed''
     = (if Disputed payload then Some [''true''] else None)
   \<and> dom (ListTransfers_values rfc3339 payload)
       \<subseteq> {''accountIDs'', ''status'', ''startDateTime'', ''endDateTime'', ''groupID'',
          ''count'', ''skip'', ''refunded'', ''disputed''}
   \<and> (Count payload = 0 \<and> Skip payload = 0 \<longrightarrow>
        ''count'' \<notin> dom (ListTransfers_values rfc3339 payload)
        \<and> ''skip'' \<notin> dom (ListTransfers_values rfc3339 payload))"
proof -
  have other: "ListTransfers_values rfc3339 payload key = None"
    if "key \<notin> {''accountIDs'', ''status'', ''startDateTime'', ''endDateTime'', ''groupID'',
          ''count'', ''skip'', ''refunded'', ''disputed''}" for key
    using that by (simp add: ListTransfers_values_apply)
  have keys: "dom (ListTransfers_values rfc3339 payload)
       \<subseteq> {''accountIDs'', ''status'', ''startDateTime'', ''endDateTime'', ''groupID'',
          ''count'', ''skip'', ''refunded'', ''disputed''}"
  proof (rule subsetI)
    fix key
    assume d: "key \<in> dom (ListTransfers_values rfc3339 payload)"
    show "key \<in> {''accountIDs'', ''status'', ''startDateTime'', ''endDateTime'', ''groupID'',
          ''count'', ''skip'', ''refunded'', ''disputed''}"
    proof (rule ccontr)
      assume "key \<notin> {''accountIDs'', ''status'', ''startDateTime'', ''endDateTime'', ''groupID'',
          ''count'', ''skip'', ''refunded'', ''disputed''}"
      from other [OF this] d show False
        by (simp add: dom_def)
    qed
  qed
  have accountIDs: "ListTransfers_values rfc3339 payload ''accountIDs''
     = (if AccountIDs payload \<noteq> [] then Some [Join (AccountIDs payload) '',''] else None)"
    by (simp add: ListTransfers_values_apply)
  have status: "ListTransfers_values rfc3339 payload ''status''
     = (if Status_q payload \<noteq> [] then Some [Status_q payload] else None)"
    by (simp add: ListTransfers_values_apply)
  have startDateTime: "ListTransfers_values rfc3339 payload ''startDateTime''
     = (if IsZero (StartDateTime payload) then None else Some [rfc3339 (StartDateTime payload)])"
    by (simp add: ListTransfers_values_apply)
  have endDateTime: "ListTransfers_values rfc3339 payload ''endDateTime''
     = (if IsZero (EndDateTime payload) then None else Some [rfc3339 (EndDateTime payload)])"
    by (simp add: ListTransfers_values_apply)
  have groupID: "ListTransfers_values rfc3339 payload ''groupID''
     = (if GroupID payload \<noteq> [] then Some [GroupID payload] else None)"
    by (simp add: ListTransfers_values_apply)
  have count: "ListTransfers_values rfc3339 payload ''count''
     = (if Count payload > 0 then Some [Sprint (Count payload)] else None)"
    by (simp add: ListTransfers_values_apply)
  have skip: "ListTransfers_values rfc3339 payload ''skip''
     = (if Skip payload > 0 then Some [Sprint (Skip payload)] else None)"
    by (simp add: ListTransfers_values_apply)
  have refunded: "ListTransfers_values rfc3339 payload ''refunded''
     = (if Refunded payload then Some [''true''] else None)"
    by (simp add: ListTransfers_values_apply)
  have disputed: "ListTransfers_values rfc3339 payload ''disputed''
     = (if Disputed payload then Some [''true''] else None)"
    by (simp add: ListTransfers_values_apply)
  have zero: "''count'' \<notin> dom (ListTransfers_values rfc3339 payload)
        \<and> ''skip'' \<notin> dom (ListTransfers_values rfc3339 payload)"
    if "Count payload = 0 \<and> Skip payload = 0"
    using that count skip by (simp add: dom_def)
  from zero have zero': "Count payload = 0 \<and> Skip payload = 0 \<longrightarrow>
        ''count'' \<notin> dom (ListTransfers_values rfc3339 payload)
        \<and> ''skip'' \<notin> dom (ListTransfers_values rfc3339 payload)"
    by (rule impI)
  show ?thesis
    by (intro conjI accountIDs status startDateTime endDateTime groupID count skip refunded
        disputed keys zero')
qed

theorem ListTransfers_query_parameters_witness:
  "ListTransfers_values (\<lambda>t. ''2022-09-20T17:46:40Z'')
      \<lparr>AccountIDs = [''a1'', ''a2''], Status_q = ''pending'',
        StartDateTime = \<lparr>sec = 63799292800, nsec = 0\<rparr>, EndDateTime = \<lparr>sec = 0, nsec = 0\<rparr>,
        GroupID = [], Count = 0, Skip = 0, Refunded = True, Disputed = False\<rparr> ''accountIDs''
     = Some [''a1,a2'']
   \<and> ListTransfers_values (\<lambda>t. ''2022-09-20T17:46:40Z'')
      \<lparr>AccountIDs = [''a1'', ''a2''], Status_q = ''pending'',
        StartDateTime = \<lparr>sec = 63799292800, nsec = 0\<rparr>, EndDateTime = \<lparr>sec = 0, nsec = 0\<rparr>,
        GroupID = [], Count = 0, Skip = 0, Refunded = True, Disputed = False\<rparr> ''startDateTime''
     = Some [''2022-09-20T17:46:40Z'']
   \<and> ListTransfers_values (\<lambda>t. ''2022-09-20T17:46:40Z'')
      \<lparr>AccountIDs = [''a1'', ''a2''], Status_q = ''pending'',
        StartDateTime = \<lparr>sec = 63799292800, nsec = 0\<rparr>, EndDateTime = \<lparr>sec = 0, nsec = 0\<rparr>,
        GroupID = [], Count = 0, Skip = 0, Refunded = True, Disputed = False\<rparr> ''endDateTime''
     = None
   \<and> Count \<lparr>AccountIDs = [''a1'', ''a2''], Status_q = ''pending'',
        StartDateTime = \<lparr>sec = 63799292800, nsec = 0\<rparr>, EndDateTime = \<lparr>sec = 0, nsec = 0\<rparr>,
        GroupID = [], Count = 0, Skip = 0, Refunded = True, Disputed = False\<rparr> = 0
   \<and> Skip \<lparr>AccountIDs = [''a1'', ''a2''], Status_q = ''pending'',
        StartDateTime = \<lparr>sec = 63799292800, nsec = 0\<rparr>, EndDateTime = \<lparr>sec = 0, nsec = 0\<rparr>,
        GroupID = [], Count = 0, Skip = 0, Refunded = True, Disputed = False\<rparr> = 0
   \<and> ''count'' \<notin> dom (ListTransfers_values (\<lambda>t. ''2022-09-20T17:46:40Z'')
      \<lparr>AccountIDs = [''a1'', ''a2''], Status_q = ''pending'',
        StartDateTime = \<lparr>sec = 63799292800, nsec = 0\<rparr>, EndDateTime = \<lparr>sec = 0, nsec = 0\<rparr>,
        GroupID = [], Count = 0, Skip = 0, Refunded = True, Disputed = False\<rparr>)
   \<and> ''skip'' \<notin> dom (ListTransfers_values (\<lambda>t. ''2022-09-20T17:46:40Z'')
      \<lparr>AccountIDs = [''a1'', ''a2''], Status_q = ''pending'',
        StartDateTime = \<lparr>sec = 63799292800, nsec = 0\<rparr>, EndDateTime = \<lparr>sec = 0, nsec = 0\<rparr>,
        GroupID = [], Count = 0, Skip = 0, Refunded = True, Disputed = False\<rparr>)"
proof -
  let ?f = "\<lambda>t::Time. ''2022-09-20T17:46:40Z''"
  let ?p = "\<lparr>AccountIDs = [''a1'', ''a2''], Status_q = ''pending'',
        StartDateTime = \<lparr>sec = 63799292800, nsec = 0\<rparr>, EndDateTime = \<lparr>sec = 0, nsec = 0\<rparr>,
        GroupID = [], Count = 0, Skip = 0, Refunded = True, Disputed = False\<rparr>"
  note q = ListTransfers_query_parameters [of ?f ?p]
  note accountIDs = q [THEN conjunct1]
  note startDateTime = q [THEN conjunct2, THEN conjunct2, THEN conjunct1]
  note endDateTime = q [THEN conjunct2, THEN conjunct2, THEN conjunct2, THEN conjunct1]
  note zero = q [THEN conjunct2, THEN conjunct2, THEN conjunct2, THEN conjunct2, THEN conjunct2,
      THEN conjunct2, THEN conjunct2, THEN conjunct2, THEN conjunct2, THEN conjunct2]
  have a: "ListTransfers_values ?f ?p ''accountIDs'' = Some [''a1,a2'']"
    using accountIDs by simp
  have b: "ListTransfers_values ?f ?p ''startDateTime'' = Some [''2022-09-20T17:46:40Z'']"
    using startDateTime by (simp add: IsZero_def)
  have c: "ListTransfers_values ?f ?p ''endDateTime'' = None"
    using endDateTime by (simp add: IsZero_def)
  have z: "Count ?p = 0 \<and> Skip ?p = 0"
    by simp
  from zero z have d: "''count'' \<notin> dom (ListTransfers_values ?f ?p)
      \<and> ''skip'' \<notin> dom (ListTransfers_values ?f ?p)"
    by (rule mp)
  from a b c z d show ?thesis
    by (simp only: simp_thms)
qed

text \<open>The request of \<^verbatim>\<open>ListTransfers\<close>: the encoded values follow the question mark.\<close>

lemma ListTransfers_request:
  "ListTransfers k http encode rfc3339 unm payload =
     (case http ''GET''
             (baseURL k @ ''/'' @ pathTransfers k @ ''?''
                @ encode (ListTransfers_values rfc3339 payload)) None None of
        (b, statusCode, Some err) \<Rightarrow> (None, Some err)
      | (b, statusCode, None) \<Rightarrow>
          if statusCode = 200 then unm b None
          else if statusCode = 429 then (None, Some ErrRateLimit)
          else (None, Some (ErrDefault statusCode)))"
  by (simp add: ListTransfers_def MethodGet_def http_status_defs split: prod.splits option.splits)

lemma Sprint_examples: "Sprint 25 = ''25''" "Sprint 1204 = ''1204''" "Sprint (- 7) = ''-7''"
  by (simp_all add: Sprint_def natDec.simps digitChar_def)

end
